theory Spec2Isabelle
  imports Main "HOL-Library.AList"
begin

section \<open>JavaScript values used by the server\<close>

text \<open>
  Numbers that the server handles are record ids, counters and millisecond time stamps:
  they are modelled as \<^typ>\<open>int\<close>. A \<open>Date\<close> is its number of milliseconds since the
  epoch. A JavaScript \<open>Map\<close> is an association list in insertion order: \<open>get\<close> is
  \<^const>\<open>map_of\<close>, \<open>set\<close> is \<^const>\<open>AList.update\<close> (an existing key keeps its place, a new
  key goes to the end), \<open>delete\<close> is \<^const>\<open>AList.delete\<close>, \<open>size\<close> is the length.
\<close>

definition digit_char :: "nat \<Rightarrow> char" where
  "digit_char n = ''0123456789'' ! n"

function show_nat :: "nat \<Rightarrow> string" where
  "show_nat n = (if n < 10 then [digit_char n] else show_nat (n div 10) @ [digit_char (n mod 10)])"
  by pat_completeness auto
termination
  by (relation "measure (\<lambda>n. n)") auto

declare show_nat.simps [simp del]

text \<open>The text that a template literal gives for an integral number.\<close>

definition show_int :: "int \<Rightarrow> string" where
  "show_int i = (if i < 0 then CHR ''-'' # show_nat (nat (- i)) else show_nat (nat i))"

text \<open>\<open>s || null\<close> on a string that may be null or undefined: the empty string is falsy.\<close>

definition or_null :: "string option \<Rightarrow> string option" where
  "or_null x = (case x of None \<Rightarrow> None | Some s \<Rightarrow> if s = [] then None else Some s)"

text \<open>
  A string on which the server computes (the content of a message) is the list of its
  UTF-16 code units; the strings that the server only stores and compares (names, account
  types, access codes) are \<^typ>\<open>string\<close>.

  \<open>String.prototype.trim\<close> removes white space and line terminators at both ends: tab
  (U+0009), line feed (U+000A), vertical tab (U+000B), form feed (U+000C), carriage
  return (U+000D), space (U+0020), no-break space (U+00A0), U+1680, U+2000 to U+200A,
  the line and paragraph separators (U+2028, U+2029), U+202F, U+205F, U+3000 and the byte
  order mark (U+FEFF).
\<close>

type_synonym js_string = "nat list"

definition is_white_space :: "nat \<Rightarrow> bool" where
  "is_white_space c =
     (c \<in> set [0x09, 0x0A, 0x0B, 0x0C, 0x0D, 0x20, 0xA0, 0x1680, 0x2028, 0x2029, 0x202F, 0x205F,
               0x3000, 0xFEFF]
      \<or> (0x2000 \<le> c \<and> c \<le> 0x200A))"

definition trim :: "js_string \<Rightarrow> js_string" where
  "trim s = rev (dropWhile is_white_space (rev (dropWhile is_white_space s)))"

text \<open>
  The time zone of the process, as ECMAScript's \<open>LocalTZA(t, isUTC)\<close>: the offset of
  local time from UTC in milliseconds, at the UTC time \<open>t\<close> when \<open>isUTC\<close> is true and at
  the local time \<open>t\<close> when it is false. \<open>utc\<close> is the zone with no offset.
\<close>

type_synonym time_zone = "int \<Rightarrow> bool \<Rightarrow> int"

definition utc :: time_zone where
  "utc t isUTC = 0"


section \<open>shared/schema.ts\<close>

record User =
  user_id :: int
  username :: string
  email :: string
  passwordHash :: "string option"
  firstName :: "string option"
  lastName :: "string option"
  accountType :: string
  accessCode :: "string option"
  rank :: int
  isOnline :: bool
  joinedAt :: int

record CreateUser =
  new_username :: string
  new_email :: string
  new_passwordHash :: "string option"
  new_firstName :: "string option"
  new_lastName :: "string option"
  new_accountType :: "string option"
  new_accessCode :: "string option"
  new_rank :: "int option"

record InsertMessage =
  userId :: int
  content :: js_string

record MessageWithUser =
  message_id :: int
  message_userId :: int
  message_content :: js_string
  createdAt :: int
  message_user :: User

record Law =
  law_id :: int
  law_title :: string
  law_description :: string
  law_status :: string
  passedVotes :: int
  totalVotes :: int
  law_createdAt :: int

record InsertLaw =
  new_law_title :: string
  new_law_description :: string

record ActiveVote =
  vote_id :: int
  title :: string
  description :: string
  proposedBy :: int
  yesVotes :: int
  noVotes :: int
  totalVotesNeeded :: int
  endsAt :: int
  vote_createdAt :: int

record InsertActiveVote =
  new_title :: string
  new_description :: string
  new_proposedBy :: int
  new_endsAt :: int

text \<open>
  The \<open>vote\<close> of a ballot is the value that the request carries: \<open>castVote\<close> declares
  it as \<open>"yes" | "no"\<close>, and the cast endpoint passes the field of the body as it comes.
\<close>

record Ballot =
  ballot_userId :: int
  ballot_voteId :: int
  ballot_vote :: string

record AccessCode =
  code_id :: int
  code :: string
  createdBy :: int
  isActive :: bool
  code_createdAt :: int

record VoteResults =
  yes :: int
  no :: int
  total :: int

section \<open>server/storage.ts: MemStorage\<close>

record MemStorage =
  users :: "(int \<times> User) list"
  messages :: "(int \<times> MessageWithUser) list"
  laws :: "(int \<times> Law) list"
  activeVotes :: "(int \<times> ActiveVote) list"
  activeVoteUsers :: "(string \<times> Ballot) list"
  accessCodes :: "(string \<times> AccessCode) list"
  currentUserId :: int
  currentMessageId :: int
  currentLawId :: int
  currentVoteId :: int
  currentAccessCodeId :: int

text \<open>
  The constructor followed by \<open>initializeDefaultData\<close>, run at time \<open>now\<close> (one
  reading of the clock stands for the few that the constructor makes): three laws, the
  sample proposal and five access codes. The dates of the laws are
  \<open>new Date("2024-01-15")\<close>, \<open>new Date("2024-01-20")\<close> and \<open>new Date("2024-02-01")\<close>.
\<close>

definition defaultLaws :: "(int \<times> Law) list" where
  "defaultLaws =
    [(1, \<lparr>law_id = 1, law_title = ''Respectful Communication'',
          law_description = ''All members must maintain respectful communication at all times. Harassment, hate speech, or discriminatory language will result in immediate action.'',
          law_status = ''active'', passedVotes = 17, totalVotes = 20,
          law_createdAt = 1705276800000\<rparr>),
     (2, \<lparr>law_id = 2, law_title = ''Rank Promotion Guidelines'',
          law_description = ''Rank promotions are based on positive contributions to the community, adherence to laws, and active participation over a minimum period of 30 days.'',
          law_status = ''active'', passedVotes = 23, totalVotes = 25,
          law_createdAt = 1705708800000\<rparr>),
     (3, \<lparr>law_id = 3, law_title = ''Voting Participation'',
          law_description = ''All members rank 3 and above are encouraged to participate in community votes. Quorum for law passage is set at 60% of eligible voters.'',
          law_status = ''active'', passedVotes = 19, totalVotes = 24,
          law_createdAt = 1706745600000\<rparr>)]"

definition sampleVote :: "int \<Rightarrow> ActiveVote" where
  "sampleVote now =
    \<lparr>vote_id = 1, title = ''Chat History Retention'',
     description = ''Implement automatic chat history retention of 90 days for all messages, with option for users to export their message history.'',
     proposedBy = 1,
     yesVotes = 8, noVotes = 4, totalVotesNeeded = 20,
     endsAt = now + 3 * 24 * 60 * 60 * 1000, vote_createdAt = now\<rparr>"

definition testAccessCode :: "int \<Rightarrow> int \<Rightarrow> string \<Rightarrow> string \<times> AccessCode" where
  "testAccessCode now i c =
     (c, \<lparr>code_id = i, code = c, createdBy = 1, isActive = True, code_createdAt = now\<rparr>)"

definition initialStorage :: "int \<Rightarrow> MemStorage" where
  "initialStorage now =
    \<lparr>users = [], messages = [], laws = defaultLaws,
     activeVotes = [(1, sampleVote now)], activeVoteUsers = [],
     accessCodes = [testAccessCode now 1 ''3.4.12'', testAccessCode now 2 ''333'',
       testAccessCode now 3 ''444'', testAccessCode now 4 ''555'', testAccessCode now 5 ''777''],
     currentUserId = 1, currentMessageId = 1, currentLawId = 4, currentVoteId = 2,
     currentAccessCodeId = 6\<rparr>"

definition getUser :: "int \<Rightarrow> MemStorage \<Rightarrow> User option" where
  "getUser i s = map_of (users s) i"

definition getUserCount :: "MemStorage \<Rightarrow> int" where
  "getUserCount s = int (length (users s))"

text \<open>
  \<open>createUser\<close>: the first user of the store gets rank 0, every other one the rank of the
  request, or 10 when the request has none (\<open>insertUser.rank ?? 10\<close>).
\<close>

definition createUser :: "CreateUser \<Rightarrow> int \<Rightarrow> MemStorage \<Rightarrow> User \<times> MemStorage" where
  "createUser insertUser now s =
    (let i = currentUserId s;
         r = (if length (users s) = 0 then 0
              else (case new_rank insertUser of None \<Rightarrow> 10 | Some n \<Rightarrow> n));
         user = \<lparr>user_id = i, username = new_username insertUser, email = new_email insertUser,
                 passwordHash = or_null (new_passwordHash insertUser),
                 firstName = or_null (new_firstName insertUser),
                 lastName = or_null (new_lastName insertUser),
                 accountType = (case or_null (new_accountType insertUser) of
                                  None \<Rightarrow> ''full'' | Some t \<Rightarrow> t),
                 accessCode = or_null (new_accessCode insertUser),
                 rank = r, isOnline = True, joinedAt = now\<rparr>
     in (user, s\<lparr>currentUserId := i + 1, users := AList.update i user (users s)\<rparr>))"

definition updateUserRank :: "int \<Rightarrow> int \<Rightarrow> MemStorage \<Rightarrow> User option \<times> MemStorage" where
  "updateUserRank uid newRank s =
    (case map_of (users s) uid of
       None \<Rightarrow> (None, s)
     | Some user \<Rightarrow>
         (let updatedUser = user\<lparr>rank := newRank\<rparr>
          in (Some updatedUser, s\<lparr>users := AList.update uid updatedUser (users s)\<rparr>)))"

definition updateUserAccessCode :: "int \<Rightarrow> string \<Rightarrow> MemStorage \<Rightarrow> User option \<times> MemStorage" where
  "updateUserAccessCode uid c s =
    (case map_of (users s) uid of
       None \<Rightarrow> (None, s)
     | Some user \<Rightarrow>
         (let updatedUser = user\<lparr>accessCode := Some c\<rparr>
          in (Some updatedUser, s\<lparr>users := AList.update uid updatedUser (users s)\<rparr>)))"

definition setUserOnlineStatus :: "int \<Rightarrow> bool \<Rightarrow> MemStorage \<Rightarrow> MemStorage" where
  "setUserOnlineStatus uid b s =
    (case map_of (users s) uid of
       None \<Rightarrow> s
     | Some user \<Rightarrow> s\<lparr>users := AList.update uid (user\<lparr>isOnline := b\<rparr>) (users s)\<rparr>)"

text \<open>
  The filter of \<open>getOnlineUsersByAccessCode\<close> and \<open>getRecentMessagesByAccessCode\<close>, with
  its three branches in the order of the source.
\<close>

definition codeFilter :: "string option \<Rightarrow> User \<Rightarrow> bool" where
  "codeFilter ac user =
    (if ac = None then
       accountType user = ''full'' \<or> (accountType user = ''code'' \<and> accessCode user = Some ''3.4.12'')
     else if ac = Some ''3.4.12'' then
       accountType user = ''full'' \<or> (accountType user = ''code'' \<and> accessCode user = Some ''3.4.12'')
     else accountType user = ''code'' \<and> accessCode user = ac)"

definition getOnlineUsers :: "MemStorage \<Rightarrow> User list" where
  "getOnlineUsers s = filter isOnline (map snd (users s))"

definition getOnlineUsersByAccessCode :: "string option \<Rightarrow> MemStorage \<Rightarrow> User list" where
  "getOnlineUsersByAccessCode ac s =
     filter (\<lambda>user. if \<not> isOnline user then False else codeFilter ac user) (map snd (users s))"

datatype storage_error = AccessCodeExists | UserNotFound

definition createAccessCode ::
  "string \<Rightarrow> int \<Rightarrow> bool \<Rightarrow> int \<Rightarrow> MemStorage \<Rightarrow> (storage_error + AccessCode) \<times> MemStorage" where
  "createAccessCode c by active now s =
    (if map_of (accessCodes s) c \<noteq> None then (Inl AccessCodeExists, s)
     else
       (let i = currentAccessCodeId s;
            ac = \<lparr>code_id = i, code = c, createdBy = by, isActive = active, code_createdAt = now\<rparr>
        in (Inr ac, s\<lparr>currentAccessCodeId := i + 1,
                       accessCodes := AList.update c ac (accessCodes s)\<rparr>)))"

text \<open>
  \<open>cleanupOldMessages\<close>: \<open>sevenDaysAgo\<close> is the date of the sweep with its day of the
  month moved back by 7, \<open>setDate(getDate() - 7)\<close>. \<open>setDate\<close> works on local time: it
  takes the local time of the date, \<open>t + LocalTZA(t, true)\<close>, replaces its day by the day
  that is 7 earlier and keeps the time within the day, which gives the local time less
  7 times 24 hours, and converts the result \<open>l\<close> back to \<open>l - LocalTZA(l, false)\<close>. The
  result is 7 times 24 hours before the sweep when the offset is the same at both ends,
  and an hour more or less than that across a change of the offset. A first loop
  collects the ids of the messages created before it, a second loop deletes them.
\<close>

definition msPerDay :: int where
  "msPerDay = 24 * 60 * 60 * 1000"

definition setDate_back :: "time_zone \<Rightarrow> int \<Rightarrow> int \<Rightarrow> int" where
  "setDate_back tz days t =
     (let localTime = t + tz t True;
          newDate = localTime - days * msPerDay
      in newDate - tz newDate False)"

definition sevenDaysAgo :: "time_zone \<Rightarrow> int \<Rightarrow> int" where
  "sevenDaysAgo tz now = setDate_back tz 7 now"

definition cleanupOldMessages :: "time_zone \<Rightarrow> int \<Rightarrow> MemStorage \<Rightarrow> MemStorage" where
  "cleanupOldMessages tz now s =
    (let messagesToDelete =
           map fst (filter (\<lambda>(i, message). createdAt message < sevenDaysAgo tz now) (messages s))
     in s\<lparr>messages := fold AList.delete messagesToDelete (messages s)\<rparr>)"

text \<open>
  \<open>createMessage\<close> reads the clock twice: \<open>sweptAt\<close> inside the sweep and \<open>now\<close> for
  the new message. A user id that is not in the store throws before anything is changed.
\<close>

definition createMessage ::
  "time_zone \<Rightarrow> InsertMessage \<Rightarrow> int \<Rightarrow> int \<Rightarrow> MemStorage
    \<Rightarrow> (storage_error + MessageWithUser) \<times> MemStorage" where
  "createMessage tz insertMessage sweptAt now s =
    (case map_of (users s) (userId insertMessage) of
       None \<Rightarrow> (Inl UserNotFound, s)
     | Some user \<Rightarrow>
         (let s1 = cleanupOldMessages tz sweptAt s;
              i = currentMessageId s1;
              messageWithUser =
                \<lparr>message_id = i, message_userId = userId insertMessage,
                 message_content = content insertMessage, createdAt = now, message_user = user\<rparr>
          in (Inr messageWithUser,
              s1\<lparr>currentMessageId := i + 1,
                 messages := AList.update i messageWithUser (messages s1)\<rparr>)))"

definition getUserMessages :: "int \<Rightarrow> MemStorage \<Rightarrow> MessageWithUser list" where
  "getUserMessages uid s =
     sort_key createdAt (filter (\<lambda>message. message_userId message = uid) (map snd (messages s)))"



definition createLaw :: "InsertLaw \<Rightarrow> int \<Rightarrow> MemStorage \<Rightarrow> Law \<times> MemStorage" where
  "createLaw insertLaw now s =
    (let i = currentLawId s;
         law = \<lparr>law_id = i, law_title = new_law_title insertLaw,
                law_description = new_law_description insertLaw, law_status = ''active'',
                passedVotes = 0, totalVotes = 0, law_createdAt = now\<rparr>
     in (law, s\<lparr>currentLawId := i + 1, laws := AList.update i law (laws s)\<rparr>))"

definition createActiveVote :: "InsertActiveVote \<Rightarrow> int \<Rightarrow> MemStorage \<Rightarrow> ActiveVote \<times> MemStorage" where
  "createActiveVote insertVote now s =
    (let i = currentVoteId s;
         vote = \<lparr>vote_id = i, title = new_title insertVote,
                 description = new_description insertVote,
                 proposedBy = new_proposedBy insertVote, yesVotes = 0, noVotes = 0,
                 totalVotesNeeded = 20, endsAt = new_endsAt insertVote, vote_createdAt = now\<rparr>
     in (vote, s\<lparr>currentVoteId := i + 1, activeVotes := AList.update i vote (activeVotes s)\<rparr>))"

text \<open>The key of a ballot in \<open>activeVoteUsers\<close>: the template literal \<open>`${userId}-${voteId}`\<close>.\<close>

definition ballotKey :: "int \<Rightarrow> int \<Rightarrow> string" where
  "ballotKey uid vid = show_int uid @ ''-'' @ show_int vid"

definition hasUserVoted :: "int \<Rightarrow> int \<Rightarrow> MemStorage \<Rightarrow> bool" where
  "hasUserVoted uid vid s = (map_of (activeVoteUsers s) (ballotKey uid vid) \<noteq> None)"

definition castVote :: "int \<Rightarrow> int \<Rightarrow> string \<Rightarrow> MemStorage \<Rightarrow> bool \<times> MemStorage" where
  "castVote uid vid vote s =
    (let key = ballotKey uid vid in
     if map_of (activeVoteUsers s) key \<noteq> None then (False, s)
     else
       (let s1 = s\<lparr>activeVoteUsers :=
                     AList.update key \<lparr>ballot_userId = uid, ballot_voteId = vid, ballot_vote = vote\<rparr>
                       (activeVoteUsers s)\<rparr>
        in case map_of (activeVotes s1) vid of
             None \<Rightarrow> (True, s1)
           | Some activeVote \<Rightarrow>
               (let updatedVote = activeVote
                      \<lparr>yesVotes := (if vote = ''yes'' then yesVotes activeVote + 1 else yesVotes activeVote),
                       noVotes := (if vote = ''no'' then noVotes activeVote + 1 else noVotes activeVote)\<rparr>
                in (True, s1\<lparr>activeVotes := AList.update vid updatedVote (activeVotes s1)\<rparr>))))"

definition getVoteResults :: "int \<Rightarrow> MemStorage \<Rightarrow> VoteResults" where
  "getVoteResults vid s =
    (case map_of (activeVotes s) vid of
       None \<Rightarrow> \<lparr>yes = 0, no = 0, total = 0\<rparr>
     | Some vote \<Rightarrow> \<lparr>yes = yesVotes vote, no = noVotes vote, total = yesVotes vote + noVotes vote\<rparr>)"

text \<open>
  Every mutating method of the store as one operation, to speak about the states that
  the store can reach, in a process of time zone \<open>tz\<close>, and about what any operation does
  to it. An operation that throws leaves the state as it was at the throw.
\<close>

datatype storage_op =
    OpCreateUser CreateUser int
  | OpUpdateUserRank int int
  | OpUpdateUserAccessCode int string
  | OpSetUserOnlineStatus int bool
  | OpCreateAccessCode string int bool int
  | OpCreateMessage InsertMessage int int
  | OpCleanupOldMessages int
  | OpCreateLaw InsertLaw int
  | OpCreateActiveVote InsertActiveVote int
  | OpCastVote int int string

fun apply_op :: "time_zone \<Rightarrow> storage_op \<Rightarrow> MemStorage \<Rightarrow> MemStorage" where
  "apply_op tz (OpCreateUser insertUser now) s = snd (createUser insertUser now s)"
| "apply_op tz (OpUpdateUserRank uid newRank) s = snd (updateUserRank uid newRank s)"
| "apply_op tz (OpUpdateUserAccessCode uid c) s = snd (updateUserAccessCode uid c s)"
| "apply_op tz (OpSetUserOnlineStatus uid b) s = setUserOnlineStatus uid b s"
| "apply_op tz (OpCreateAccessCode c by active now) s = snd (createAccessCode c by active now s)"
| "apply_op tz (OpCreateMessage insertMessage sweptAt now) s =
     snd (createMessage tz insertMessage sweptAt now s)"
| "apply_op tz (OpCleanupOldMessages now) s = cleanupOldMessages tz now s"
| "apply_op tz (OpCreateLaw insertLaw now) s = snd (createLaw insertLaw now s)"
| "apply_op tz (OpCreateActiveVote insertVote now) s = snd (createActiveVote insertVote now s)"
| "apply_op tz (OpCastVote uid vid vote) s = snd (castVote uid vid vote s)"

fun apply_ops :: "time_zone \<Rightarrow> storage_op list \<Rightarrow> MemStorage \<Rightarrow> MemStorage" where
  "apply_ops tz [] s = s"
| "apply_ops tz (x # xs) s = apply_ops tz xs (apply_op tz x s)"

inductive reachable :: "time_zone \<Rightarrow> MemStorage \<Rightarrow> bool" for tz :: time_zone where
  initial: "reachable tz (initialStorage now)"
| step: "reachable tz s \<Longrightarrow> reachable tz (apply_op tz x s)"

text \<open>The number of ballots that the ledger \<open>activeVoteUsers\<close> holds for a proposal.\<close>

definition ballotCount :: "int \<Rightarrow> MemStorage \<Rightarrow> nat" where
  "ballotCount vid s = length (filter (\<lambda>(key, b). ballot_voteId b = vid) (activeVoteUsers s))"

section \<open>server/routes.ts\<close>

text \<open>
  The WebSocket objects live in a store, \<open>sockets\<close>, from handles to objects: the registry
  \<open>connectedClients\<close> maps a user id to a handle, so that an object registered under two
  ids is one object. \<open>sent\<close> is the log of every \<open>send\<close> call of the server, in order: the
  handle written to and the event.
\<close>

datatype ready_state = CONNECTING | OPEN | CLOSING | CLOSED

record AuthenticatedWebSocket =
  readyState :: ready_state
  ws_userId :: "int option"
  ws_user :: "User option"

datatype event =
    UserOnline User
  | UserOffline User
  | OnlineUsers "User list"
  | NewMessage MessageWithUser
  | NewVote ActiveVote
  | VoteUpdate int VoteResults
  | RankUpdate User

record server =
  storage :: MemStorage
  sockets :: "nat \<Rightarrow> AuthenticatedWebSocket"
  connectedClients :: "(int \<times> nat) list"
  sent :: "(nat \<times> event) list"

text \<open>\<open>broadcast\<close>: the \<open>forEach\<close> over the registry, one entry after the other.\<close>

fun broadcast_forEach ::
  "(nat \<Rightarrow> AuthenticatedWebSocket) \<Rightarrow> event \<Rightarrow> int option \<Rightarrow> (int \<times> nat) list \<Rightarrow> (nat \<times> event) list" where
  "broadcast_forEach sk message excludeUserId [] = []"
| "broadcast_forEach sk message excludeUserId ((uid, client) # rest) =
     (if readyState (sk client) = OPEN \<and> Some uid \<noteq> excludeUserId then [(client, message)] else [])
     @ broadcast_forEach sk message excludeUserId rest"

definition broadcast :: "event \<Rightarrow> int option \<Rightarrow> server \<Rightarrow> server" where
  "broadcast message excludeUserId srv =
     srv\<lparr>sent := sent srv @
       broadcast_forEach (sockets srv) message excludeUserId (connectedClients srv)\<rparr>"

text \<open>
  The decision \<open>shouldReceive\<close> inside \<open>broadcastToAccessCode\<close>, for the user snapshot
  of a client and the access code of the sender.
\<close>

definition shouldReceive :: "User \<Rightarrow> string option \<Rightarrow> bool" where
  "shouldReceive clientUser senderAccessCode =
    (let clientAccessCode =
           (if accountType clientUser = ''full'' then None else accessCode clientUser)
     in if clientAccessCode = None then
          senderAccessCode = None \<or> senderAccessCode = Some ''3.4.12''
        else if clientAccessCode = Some ''3.4.12'' then
          senderAccessCode = None \<or> senderAccessCode = Some ''3.4.12''
        else clientAccessCode = senderAccessCode)"

fun broadcastToAccessCode_forEach ::
  "(nat \<Rightarrow> AuthenticatedWebSocket) \<Rightarrow> event \<Rightarrow> string option \<Rightarrow> int option \<Rightarrow> (int \<times> nat) list
    \<Rightarrow> (nat \<times> event) list" where
  "broadcastToAccessCode_forEach sk message senderAccessCode excludeUserId [] = []"
| "broadcastToAccessCode_forEach sk message senderAccessCode excludeUserId ((uid, client) # rest) =
     (if readyState (sk client) = OPEN \<and> Some uid \<noteq> excludeUserId \<and> ws_user (sk client) \<noteq> None then
        (case ws_user (sk client) of
           None \<Rightarrow> []
         | Some clientUser \<Rightarrow>
             if shouldReceive clientUser senderAccessCode then [(client, message)] else [])
      else [])
     @ broadcastToAccessCode_forEach sk message senderAccessCode excludeUserId rest"

definition broadcastToAccessCode :: "event \<Rightarrow> string option \<Rightarrow> int option \<Rightarrow> server \<Rightarrow> server" where
  "broadcastToAccessCode message senderAccessCode excludeUserId srv =
     srv\<lparr>sent := sent srv @
       broadcastToAccessCode_forEach (sockets srv) message senderAccessCode excludeUserId
         (connectedClients srv)\<rparr>"

text \<open>
  The access code that every caller passes for a user:
  \<open>user.accountType === "full" ? null : user.accessCode\<close>.
\<close>

definition partitionOf :: "User \<Rightarrow> string option" where
  "partitionOf user = (if accountType user = ''full'' then None else accessCode user)"

text \<open>The handler of an \<open>authenticate\<close> frame that socket \<open>ws\<close> receives.\<close>

definition ws_authenticate :: "nat \<Rightarrow> int \<Rightarrow> server \<Rightarrow> server" where
  "ws_authenticate ws uid srv =
    (case getUser uid (storage srv) of
       None \<Rightarrow> srv
     | Some user \<Rightarrow>
         (let srv1 = srv\<lparr>sockets := (sockets srv)
                          (ws := (sockets srv ws)\<lparr>ws_userId := Some (user_id user), ws_user := Some user\<rparr>),
                        connectedClients := AList.update (user_id user) ws (connectedClients srv),
                        storage := setUserOnlineStatus (user_id user) True (storage srv)\<rparr>;
              srv2 = broadcastToAccessCode (UserOnline user) (partitionOf user) None srv1;
              onlineUsers = getOnlineUsersByAccessCode (partitionOf user) (storage srv2)
          in srv2\<lparr>sent := sent srv2 @ [(ws, OnlineUsers onlineUsers)]\<rparr>))"

text \<open>
  The handler of a \<open>message\<close> frame with content \<open>c\<close>. An exception of \<open>createMessage\<close> is
  caught and logged by the handler.
\<close>

definition ws_message ::
  "time_zone \<Rightarrow> nat \<Rightarrow> js_string \<Rightarrow> int \<Rightarrow> int \<Rightarrow> server \<Rightarrow> server" where
  "ws_message tz ws c sweptAt now srv =
    (case (ws_userId (sockets srv ws), ws_user (sockets srv ws)) of
       (Some uid, Some wsUser) \<Rightarrow>
         if uid \<noteq> 0 then
           (case createMessage tz \<lparr>userId = uid, content = c\<rparr> sweptAt now (storage srv) of
              (Inl err, st) \<Rightarrow> srv\<lparr>storage := st\<rparr>
            | (Inr newMessage, st) \<Rightarrow>
                broadcastToAccessCode (NewMessage newMessage) (partitionOf wsUser) None
                  (srv\<lparr>storage := st\<rparr>))
         else srv
     | _ \<Rightarrow> srv)"


text \<open>The replies of the REST endpoints: the status and what the body says.\<close>

datatype reply_body =
    Unauthorized
  | ContentRequired
  | SendFailed
  | InvalidInput
  | UserNotFoundReply
  | NoProposalRights
  | NoVotingRights
  | AlreadyVoted
  | FailedToCastVote
  | MessageJson MessageWithUser
  | VoteJson ActiveVote
  | CastJson VoteResults

datatype reply = Reply (status: nat) (body: reply_body)

text \<open>
  \<open>POST /api/messages\<close>, for the user id of the session and the \<open>content\<close> field of the
  body (\<open>None\<close> when the field is missing or is not a string).
\<close>

definition post_messages ::
  "time_zone \<Rightarrow> int option \<Rightarrow> js_string option \<Rightarrow> int \<Rightarrow> int \<Rightarrow> server \<Rightarrow> reply \<times> server" where
  "post_messages tz sessionUserId bodyContent sweptAt now srv =
    (case sessionUserId of
       None \<Rightarrow> (Reply 401 Unauthorized, srv)
     | Some uid \<Rightarrow>
         if uid = 0 then (Reply 401 Unauthorized, srv)
         else
           (case bodyContent of
              None \<Rightarrow> (Reply 400 ContentRequired, srv)
            | Some c \<Rightarrow>
                if c = [] \<or> length (trim c) = 0 then (Reply 400 ContentRequired, srv)
                else
                  (case createMessage tz \<lparr>userId = uid, content = trim c\<rparr> sweptAt now (storage srv) of
                     (Inl err, st) \<Rightarrow> (Reply 500 SendFailed, srv\<lparr>storage := st\<rparr>)
                   | (Inr message, st) \<Rightarrow>
                       (case getUser uid st of
                          None \<Rightarrow> (Reply 200 (MessageJson message), srv\<lparr>storage := st\<rparr>)
                        | Some messageAuthor \<Rightarrow>
                            (Reply 200 (MessageJson message),
                             broadcastToAccessCode (NewMessage message) (partitionOf messageAuthor)
                               None (srv\<lparr>storage := st\<rparr>))))))"

text \<open>
  \<open>POST /api/votes\<close>, for the body as \<open>insertActiveVoteSchema\<close> parsed it (\<open>None\<close> when
  the schema refuses the body).
\<close>

definition post_votes :: "InsertActiveVote option \<Rightarrow> int \<Rightarrow> server \<Rightarrow> reply \<times> server" where
  "post_votes parsed now srv =
    (case parsed of
       None \<Rightarrow> (Reply 400 InvalidInput, srv)
     | Some voteData \<Rightarrow>
         (case getUser (new_proposedBy voteData) (storage srv) of
            None \<Rightarrow> (Reply 404 UserNotFoundReply, srv)
          | Some user \<Rightarrow>
              if accountType user = ''code'' \<and> accessCode user \<noteq> Some ''3.4.12'' then
                (Reply 403 NoProposalRights, srv)
              else
                (case createActiveVote voteData now (storage srv) of
                   (vote, st) \<Rightarrow>
                     (Reply 200 (VoteJson vote), broadcast (NewVote vote) None (srv\<lparr>storage := st\<rparr>)))))"

text \<open>\<open>POST /api/votes/cast\<close>, for the fields \<open>userId\<close>, \<open>voteId\<close> and \<open>vote\<close> of the body.\<close>

definition post_votes_cast :: "int \<Rightarrow> int \<Rightarrow> string \<Rightarrow> server \<Rightarrow> reply \<times> server" where
  "post_votes_cast uid vid vote srv =
    (case getUser uid (storage srv) of
       None \<Rightarrow> (Reply 404 UserNotFoundReply, srv)
     | Some user \<Rightarrow>
         if accountType user = ''code'' \<and> accessCode user \<noteq> Some ''3.4.12'' then
           (Reply 403 NoVotingRights, srv)
         else if hasUserVoted uid vid (storage srv) then (Reply 400 AlreadyVoted, srv)
         else
           (case castVote uid vid vote (storage srv) of
              (success, st) \<Rightarrow>
                if \<not> success then (Reply 400 FailedToCastVote, srv\<lparr>storage := st\<rparr>)
                else
                  (let results = getVoteResults vid st
                   in (Reply 200 (CastJson results),
                       broadcast (VoteUpdate vid results) None (srv\<lparr>storage := st\<rparr>)))))"

text \<open>
  A socket that has connected and not authenticated, and the server as it starts: no
  client is registered and nothing has been sent.
\<close>

definition idleSocket :: AuthenticatedWebSocket where
  "idleSocket = \<lparr>readyState = OPEN, ws_userId = None, ws_user = None\<rparr>"

definition startServer :: "MemStorage \<Rightarrow> server" where
  "startServer st = \<lparr>storage = st, sockets = (\<lambda>h. idleSocket), connectedClients = [], sent = []\<rparr>"



section \<open>The partition classifier of the specification\<close>

text \<open>
  \<open>visible a b\<close> as the specification words it: true iff \<open>a = b\<close>, or both \<open>a\<close> and \<open>b\<close>
  lie in the set of the open partition (null) and the reserved key \<open>"3.4.12"\<close>.
\<close>

definition visible :: "string option \<Rightarrow> string option \<Rightarrow> bool" where
  "visible a b = (a = b \<or> (a \<in> {None, Some ''3.4.12''} \<and> b \<in> {None, Some ''3.4.12''}))"

section \<open>Sample requests and states\<close>

text \<open>
  The arguments with which the three account routes call \<open>createUser\<close>:
  \<open>POST /api/register\<close> (a full account with the rank that the route computed),
  \<open>POST /api/code-access\<close> (a code account with its access code) and
  \<open>POST /api/old-login\<close> (a code account, created without an access code).
\<close>

definition register_user :: "string \<Rightarrow> int \<Rightarrow> CreateUser" where
  "register_user name r =
    \<lparr>new_username = name, new_email = name @ ''@example.org'', new_passwordHash = Some ''hash'',
     new_firstName = None, new_lastName = None, new_accountType = Some ''full'',
     new_accessCode = None, new_rank = Some r\<rparr>"

definition code_access_user :: "string \<Rightarrow> string \<Rightarrow> CreateUser" where
  "code_access_user name c =
    \<lparr>new_username = name, new_email = name @ ''@example.org'', new_passwordHash = None,
     new_firstName = Some name, new_lastName = None, new_accountType = Some ''code'',
     new_accessCode = Some c, new_rank = Some 10\<rparr>"

definition old_login_user :: "string \<Rightarrow> CreateUser" where
  "old_login_user name =
    \<lparr>new_username = name, new_email = name @ ''@legacy.local'', new_passwordHash = None,
     new_firstName = None, new_lastName = None, new_accountType = Some ''code'',
     new_accessCode = None, new_rank = Some 10\<rparr>"

text \<open>A store whose only user has a code account of the private channel \<open>"444"\<close>.\<close>

definition carolStorage :: MemStorage where
  "carolStorage = snd (createUser (code_access_user ''carol'' ''444'') 0 (initialStorage 0))"

definition carolProposal :: InsertActiveVote where
  "carolProposal = \<lparr>new_title = ''t'', new_description = ''d'', new_proposedBy = 1, new_endsAt = 5\<rparr>"





text \<open>A store whose only user has a full account.\<close>

definition aliceStorage :: MemStorage where
  "aliceStorage = snd (createUser (register_user ''alice'' 0) 0 (initialStorage 0))"

text \<open>
  A store with one user and two messages: one created at time 0, one at time 1000.
\<close>

definition twoMessageStorage :: MemStorage where
  "twoMessageStorage =
     apply_ops utc
       [OpCreateUser (register_user ''alice'' 0) 0,
        OpCreateMessage \<lparr>userId = 1, content = [111, 108, 100]\<rparr> 0 0,
        OpCreateMessage \<lparr>userId = 1, content = [110, 101, 119]\<rparr> 1000 1000]
       (initialStorage 0)"

text \<open>
  A store with a full account (user 1) and an account that \<open>POST /api/old-login\<close> created
  (user 2): account type \<open>"code"\<close>, no access code.
\<close>

definition legacyStorage :: MemStorage where
  "legacyStorage =
     apply_ops utc
       [OpCreateUser (register_user ''alice'' 0) 0,
        OpCreateUser (old_login_user ''bob'') 0]
       (initialStorage 0)"

text \<open>A server whose socket 0 has authenticated as the full account of \<open>aliceStorage\<close>.\<close>

definition aliceServer :: server where
  "aliceServer = ws_authenticate 0 1 (startServer aliceStorage)"

section \<open>Properties\<close>

lemma reachable_apply_ops: "reachable tz s \<Longrightarrow> reachable tz (apply_ops tz xs s)"
  by (induction xs arbitrary: s) (auto intro: reachable.step)

subsection \<open>The broadcast router\<close>

lemma shouldReceive_visible: "shouldReceive u s = visible s (partitionOf u)"
  by (auto simp: shouldReceive_def visible_def partitionOf_def Let_def)

lemma broadcastToAccessCode_forEach_filter:
  "broadcastToAccessCode_forEach sk message s ex reg =
     map (\<lambda>(uid, client). (client, message))
       (filter (\<lambda>(uid, client). readyState (sk client) = OPEN \<and> Some uid \<noteq> ex \<and>
           (\<exists>u. ws_user (sk client) = Some u \<and> visible s (partitionOf u))) reg)"
  by (induction reg) (auto simp: shouldReceive_visible split: option.splits if_splits)

text \<open>
  C1. A broadcast of \<open>message\<close> with the sender's partition \<open>s\<close> writes the message, once
  for each entry of the registry and in the registry's order, to the sockets of exactly
  the entries that are live (socket OPEN, a user snapshot attached, the entry's user id
  different from the excluded one) and whose partition \<open>p\<close>, taken from the snapshot, is
  visible from \<open>s\<close>: \<open>s = p\<close>, or both are the open partition or \<open>"3.4.12"\<close>. Nothing
  else is written.
\<close>

theorem broadcastToAccessCode_receivers:
  "sent (broadcastToAccessCode message s ex srv) =
     sent srv @ map (\<lambda>(uid, client). (client, message))
       (filter (\<lambda>(uid, client). readyState (sockets srv client) = OPEN \<and> Some uid \<noteq> ex \<and>
           (\<exists>u. ws_user (sockets srv client) = Some u \<and> visible s (partitionOf u)))
         (connectedClients srv))"
  by (simp add: broadcastToAccessCode_def broadcastToAccessCode_forEach_filter)

subsection \<open>The identity store\<close>

text \<open>
  C9. \<open>createUser\<close> on an empty user store gives the new user rank 0; on a store with
  users it gives the requested rank, or 10 when the request has none. The user is stored
  under its id.
\<close>

theorem createUser_rank:
  "rank (fst (createUser insertUser now s)) =
     (if getUserCount s = 0 then 0 else (case new_rank insertUser of None \<Rightarrow> 10 | Some r \<Rightarrow> r))
   \<and> getUser (user_id (fst (createUser insertUser now s))) (snd (createUser insertUser now s))
       = Some (fst (createUser insertUser now s))"
  by (simp add: createUser_def getUserCount_def getUser_def Let_def update_conv')

subsection \<open>Delivery failures\<close>





subsection \<open>The vote tally\<close>

lemma ballotKey_1_99: "ballotKey 1 99 = ''1-99''"
  by (simp add: ballotKey_def show_int_def show_nat.simps digit_char_def)

text \<open>
  C10, as stated, fails: a second cast by the same user on the same unknown proposal
  returns false.
\<close>

theorem castVote_unknown_proposal_twice:
  "map_of (activeVotes (snd (castVote 1 99 ''yes'' (initialStorage 0)))) 99 = None
   \<and> fst (castVote 1 99 ''yes'' (snd (castVote 1 99 ''yes'' (initialStorage 0)))) = False"
  by (simp add: castVote_def initialStorage_def Let_def ballotKey_1_99)

text \<open>
  C10, amended. For a vote id with no entry in \<open>activeVotes\<close> and a user with no ballot
  yet under the key of (user id, vote id), \<open>castVote\<close> returns true and records the ballot
  under that key, every proposal keeps its counts, and \<open>getVoteResults\<close> for the vote id
  is \<open>{yes: 0, no: 0, total: 0}\<close> before and after.
\<close>

theorem castVote_unknown_proposal:
  assumes "map_of (activeVotes s) vid = None" and "\<not> hasUserVoted uid vid s"
  shows "fst (castVote uid vid vote s) = True
    \<and> map_of (activeVoteUsers (snd (castVote uid vid vote s))) (ballotKey uid vid)
        = Some \<lparr>ballot_userId = uid, ballot_voteId = vid, ballot_vote = vote\<rparr>
    \<and> hasUserVoted uid vid (snd (castVote uid vid vote s))
    \<and> activeVotes (snd (castVote uid vid vote s)) = activeVotes s
    \<and> getVoteResults vid s = \<lparr>yes = 0, no = 0, total = 0\<rparr>
    \<and> getVoteResults vid (snd (castVote uid vid vote s)) = \<lparr>yes = 0, no = 0, total = 0\<rparr>"
  using assms by (simp add: castVote_def hasUserVoted_def getVoteResults_def Let_def update_conv')

theorem castVote_unknown_proposal_witness:
  "fst (castVote 1 99 ''yes'' (initialStorage 0)) = True
    \<and> map_of (activeVoteUsers (snd (castVote 1 99 ''yes'' (initialStorage 0)))) (ballotKey 1 99)
        = Some \<lparr>ballot_userId = 1, ballot_voteId = 99, ballot_vote = ''yes''\<rparr>
    \<and> hasUserVoted 1 99 (snd (castVote 1 99 ''yes'' (initialStorage 0)))
    \<and> activeVotes (snd (castVote 1 99 ''yes'' (initialStorage 0))) = activeVotes (initialStorage 0)
    \<and> getVoteResults 99 (initialStorage 0) = \<lparr>yes = 0, no = 0, total = 0\<rparr>
    \<and> getVoteResults 99 (snd (castVote 1 99 ''yes'' (initialStorage 0))) = \<lparr>yes = 0, no = 0, total = 0\<rparr>"
proof -
  have a: "map_of (activeVotes (initialStorage 0)) 99 = None"
    by (simp add: initialStorage_def)
  have b: "\<not> hasUserVoted 1 99 (initialStorage 0)"
    by (simp add: hasUserVoted_def initialStorage_def)
  show ?thesis
    using castVote_unknown_proposal [OF a b, of "''yes''"] by simp
qed

text \<open>
  C8. For a user of the store, the cast endpoint and the proposal endpoint answer with
  the eligibility error (status 403) exactly when the user has account type \<open>"code"\<close>
  and an access code other than \<open>"3.4.12"\<close>.
\<close>

theorem eligibility_rejection:
  assumes "getUser uid (storage srv) = Some u" and "new_proposedBy voteData = uid"
  shows "(fst (post_votes_cast uid vid vote srv) = Reply 403 NoVotingRights)
           = (accountType u = ''code'' \<and> accessCode u \<noteq> Some ''3.4.12'')
    \<and> (status (fst (post_votes_cast uid vid vote srv)) = 403)
           = (accountType u = ''code'' \<and> accessCode u \<noteq> Some ''3.4.12'')
    \<and> (fst (post_votes (Some voteData) now srv) = Reply 403 NoProposalRights)
           = (accountType u = ''code'' \<and> accessCode u \<noteq> Some ''3.4.12'')
    \<and> (status (fst (post_votes (Some voteData) now srv)) = 403)
           = (accountType u = ''code'' \<and> accessCode u \<noteq> Some ''3.4.12'')"
  using assms
  by (auto simp: post_votes_cast_def post_votes_def Let_def split: prod.splits if_splits)

theorem eligibility_rejection_witness:
  "fst (post_votes_cast 1 1 ''yes'' (startServer carolStorage)) = Reply 403 NoVotingRights
   \<and> fst (post_votes (Some carolProposal) 0 (startServer carolStorage)) = Reply 403 NoProposalRights"
proof -
  let ?u = "fst (createUser (code_access_user ''carol'' ''444'') 0 (initialStorage 0))"
  have a: "getUser 1 (storage (startServer carolStorage)) = Some ?u"
    by (simp add: startServer_def carolStorage_def createUser_def getUser_def initialStorage_def Let_def)
  have b: "new_proposedBy carolProposal = 1"
    by (simp add: carolProposal_def)
  have c: "accountType ?u = ''code'' \<and> accessCode ?u \<noteq> Some ''3.4.12''"
    by (simp add: createUser_def code_access_user_def or_null_def Let_def)
  show ?thesis
    using eligibility_rejection [OF a b, of 1 "''yes''" 0] c by simp
qed

subsection \<open>Ballots\<close>

lemmas storage_defs = createUser_def updateUserRank_def updateUserAccessCode_def
  setUserOnlineStatus_def createAccessCode_def createMessage_def cleanupOldMessages_def
  createLaw_def createActiveVote_def castVote_def


lemma ballot_kept:
  "map_of (activeVoteUsers s) k = Some b \<Longrightarrow> map_of (activeVoteUsers (apply_op tz x s)) k = Some b"
  by (cases x) (auto simp: storage_defs Let_def update_conv' split: option.splits if_splits)

lemma ballots_kept:
  "map_of (activeVoteUsers s) k = Some b \<Longrightarrow> map_of (activeVoteUsers (apply_ops tz xs s)) k = Some b"
  by (induction xs arbitrary: s) (auto simp: ballot_kept)

lemma castVote_records:
  "fst (castVote uid vid vote s) \<Longrightarrow>
     map_of (activeVoteUsers (snd (castVote uid vid vote s))) (ballotKey uid vid)
       = Some \<lparr>ballot_userId = uid, ballot_voteId = vid, ballot_vote = vote\<rparr>"
  by (auto simp: castVote_def Let_def update_conv' split: option.splits if_splits)

lemma castVote_again:
  "map_of (activeVoteUsers t) (ballotKey uid vid) = Some b \<Longrightarrow> castVote uid vid vote t = (False, t)"
  by (simp add: castVote_def)

lemma post_votes_cast_again:
  "map_of (activeVoteUsers (storage srv)) (ballotKey uid vid) = Some b \<Longrightarrow>
   post_votes_cast uid vid vote srv =
     ((case getUser uid (storage srv) of
         None \<Rightarrow> Reply 404 UserNotFoundReply
       | Some u \<Rightarrow> if accountType u = ''code'' \<and> accessCode u \<noteq> Some ''3.4.12''
                   then Reply 403 NoVotingRights else Reply 400 AlreadyVoted), srv)"
  by (simp add: post_votes_cast_def hasUserVoted_def split: option.splits)

text \<open>
  C4. After a successful cast by a user on a proposal, and after any operations of the
  store that follow it, a cast by the same user on the same proposal returns false and
  leaves the store as it is: the ledger and every count are unchanged. The cast endpoint
  rejects the request without changing the server: with "already voted" (status 400) for
  a user who may vote, with the eligibility error or "user not found" otherwise.
\<close>

theorem repeated_cast_rejected:
  assumes "fst (castVote uid vid vote s)"
  shows "castVote uid vid vote' (apply_ops tz xs (snd (castVote uid vid vote s)))
           = (False, apply_ops tz xs (snd (castVote uid vid vote s)))
    \<and> hasUserVoted uid vid (apply_ops tz xs (snd (castVote uid vid vote s)))
    \<and> post_votes_cast uid vid vote' (srv\<lparr>storage := apply_ops tz xs (snd (castVote uid vid vote s))\<rparr>)
        = ((case getUser uid (apply_ops tz xs (snd (castVote uid vid vote s))) of
              None \<Rightarrow> Reply 404 UserNotFoundReply
            | Some u \<Rightarrow> if accountType u = ''code'' \<and> accessCode u \<noteq> Some ''3.4.12''
                        then Reply 403 NoVotingRights else Reply 400 AlreadyVoted),
           srv\<lparr>storage := apply_ops tz xs (snd (castVote uid vid vote s))\<rparr>)"
proof -
  let ?t = "apply_ops tz xs (snd (castVote uid vid vote s))"
  have k: "map_of (activeVoteUsers ?t) (ballotKey uid vid)
      = Some \<lparr>ballot_userId = uid, ballot_voteId = vid, ballot_vote = vote\<rparr>"
    using assms by (simp add: ballots_kept castVote_records)
  have 1: "castVote uid vid vote' ?t = (False, ?t)"
    using k by (rule castVote_again)
  have 2: "hasUserVoted uid vid ?t"
    using k by (simp add: hasUserVoted_def)
  have 3: "map_of (activeVoteUsers (storage (srv\<lparr>storage := ?t\<rparr>))) (ballotKey uid vid)
      = Some \<lparr>ballot_userId = uid, ballot_voteId = vid, ballot_vote = vote\<rparr>"
    using k by simp
  show ?thesis
    using 1 2 post_votes_cast_again [OF 3, of vote'] by simp
qed

theorem repeated_cast_rejected_witness:
  "castVote 1 1 ''no'' (apply_ops utc [OpCastVote 2 1 ''no''] (snd (castVote 1 1 ''yes'' aliceStorage)))
     = (False, apply_ops utc [OpCastVote 2 1 ''no''] (snd (castVote 1 1 ''yes'' aliceStorage)))
   \<and> fst (post_votes_cast 1 1 ''no''
        (startServer (apply_ops utc [OpCastVote 2 1 ''no''] (snd (castVote 1 1 ''yes'' aliceStorage)))))
      = Reply 400 AlreadyVoted"
proof -
  let ?t = "apply_ops utc [OpCastVote 2 1 ''no''] (snd (castVote 1 1 ''yes'' aliceStorage))"
  have a: "fst (castVote 1 1 ''yes'' aliceStorage)"
    by (simp add: castVote_def aliceStorage_def createUser_def initialStorage_def Let_def)
  have b: "map_of (users ?t) 1
      = Some (fst (createUser (register_user ''alice'' 0) 0 (initialStorage 0)))"
    by (simp add: castVote_def aliceStorage_def createUser_def initialStorage_def Let_def
        split: option.splits)
  have c: "accountType (fst (createUser (register_user ''alice'' 0) 0 (initialStorage 0))) = ''full''"
    by (simp add: createUser_def register_user_def or_null_def Let_def)
  have d: "\<And>t. (startServer t)\<lparr>storage := t\<rparr> = startServer t"
    by (simp add: startServer_def)
  show ?thesis
    using repeated_cast_rejected
      [OF a, where vote' = "''no''" and tz = utc and xs = "[OpCastVote 2 1 ''no'']"
        and srv = "startServer ?t"] b c
    by (simp add: d getUser_def)
qed




text \<open>
  A cast whose vote is neither \<open>"yes"\<close> nor \<open>"no"\<close>, which the cast endpoint lets
  through, records a ballot and moves no count.
\<close>

lemma undeclared_vote_counts_nothing:
  "fst (castVote 1 1 ''maybe'' (initialStorage 0))
   \<and> ballotCount 1 (snd (castVote 1 1 ''maybe'' (initialStorage 0))) = 1
   \<and> getVoteResults 1 (snd (castVote 1 1 ''maybe'' (initialStorage 0)))
       = getVoteResults 1 (initialStorage 0)"
  by (simp add: castVote_def initialStorage_def Let_def ballotCount_def getVoteResults_def
      update_conv' sampleVote_def)



subsection \<open>Retention\<close>








lemma sent_broadcastToAccessCode_prefix:
  "take (length (sent srv)) (sent (broadcastToAccessCode message s ex srv)) = sent srv"
  by (simp add: broadcastToAccessCode_def)



lemma twoMessageStorage_messages:
  "map (\<lambda>(i, m). (i, createdAt m, message_content m)) (messages twoMessageStorage)
     = [(1, 0, [111, 108, 100]), (2, 1000, [110, 101, 119])]"
  by (simp add: twoMessageStorage_def storage_defs initialStorage_def Let_def sevenDaysAgo_def
      setDate_back_def msPerDay_def utc_def)




subsection \<open>Symmetry of visibility\<close>

lemma legacy_users:
  "map (\<lambda>(i, u). (i, accountType u, accessCode u, isOnline u)) (users legacyStorage)
     = [(1, ''full'', None, True), (2, ''code'', None, True)]"
  by (simp add: legacyStorage_def createUser_def initialStorage_def Let_def register_user_def
      old_login_user_def or_null_def)

text \<open>
  C2 on the code. Users 1 (a full account) and 2 (a code account without access code) of
  \<open>legacyStorage\<close> are online and both have the partition null. The peer set computed
  for that partition holds user 1 only: user 1 is in the peer set computed for user 2 and
  user 2 is not in the one computed for user 1. The broadcast decision, which goes by the
  partition of the client, lets each of the two receive the other's events.
\<close>

theorem legacy_user_peer_sets:
  "reachable utc legacyStorage
   \<and> map (\<lambda>(i, u). (i, isOnline u, partitionOf u)) (users legacyStorage)
       = [(1, True, None), (2, True, None)]
   \<and> map user_id (getOnlineUsersByAccessCode None legacyStorage) = [1]
   \<and> map (\<lambda>(i, u). shouldReceive u None) (users legacyStorage) = [True, True]"
proof -
  have r: "reachable utc legacyStorage"
    unfolding legacyStorage_def by (rule reachable_apply_ops) (rule reachable.initial)
  have e: "map (\<lambda>(i, u). (i, isOnline u, partitionOf u)) (users legacyStorage)
       = [(1, True, None), (2, True, None)]
   \<and> map user_id (getOnlineUsersByAccessCode None legacyStorage) = [1]
   \<and> map (\<lambda>(i, u). shouldReceive u None) (users legacyStorage) = [True, True]"
    by (simp add: legacyStorage_def createUser_def initialStorage_def Let_def register_user_def
      old_login_user_def or_null_def partitionOf_def getOnlineUsersByAccessCode_def
      codeFilter_def shouldReceive_def)
  from r e show ?thesis
    by blast
qed

text \<open>
  For full accounts and code accounts that have an access code the two peer sets agree,
  and the broadcast decision is symmetric for all users.
\<close>

lemma peer_sets_symmetric:
  assumes "accountType a = ''full'' \<or> (accountType a = ''code'' \<and> accessCode a \<noteq> None)"
    and "accountType b = ''full'' \<or> (accountType b = ''code'' \<and> accessCode b \<noteq> None)"
  shows "codeFilter (partitionOf a) b = codeFilter (partitionOf b) a"
  using assms by (auto simp: codeFilter_def partitionOf_def)

lemma broadcast_symmetric:
  "shouldReceive a (partitionOf b) = shouldReceive b (partitionOf a)"
  by (auto simp: shouldReceive_def partitionOf_def Let_def)

subsection \<open>Message submission\<close>

text \<open>
  C5 on the code. A \<open>message\<close> frame whose content is three spaces (U+0020), received from the
  authenticated socket 0, is stored as message 1 and broadcast (one more write), while
  \<open>POST /api/messages\<close> with the same content answers 400 and changes nothing.
\<close>

theorem blank_message_over_websocket:
  "map (\<lambda>(i, m). (i, message_content m)) (messages (storage aliceServer)) = []
   \<and> map (\<lambda>(i, m). (i, message_content m))
        (messages (storage (ws_message utc 0 [32, 32, 32] 5 5 aliceServer))) = [(1, [32, 32, 32])]
   \<and> length (sent (ws_message utc 0 [32, 32, 32] 5 5 aliceServer)) = length (sent aliceServer) + 1
   \<and> trim [32, 32, 32] = []
   \<and> post_messages utc (Some 1) (Some [32, 32, 32]) 5 5 aliceServer = (Reply 400 ContentRequired, aliceServer)"
  by (simp add: aliceServer_def ws_authenticate_def ws_message_def startServer_def aliceStorage_def
      createUser_def initialStorage_def Let_def getUser_def setUserOnlineStatus_def
      broadcastToAccessCode_def createMessage_def cleanupOldMessages_def idleSocket_def
      post_messages_def trim_def is_white_space_def shouldReceive_def partitionOf_def
      register_user_def or_null_def)

text \<open>A user id that is not in the store makes \<open>createMessage\<close> throw with the store unchanged.\<close>

lemma unknown_author:
  assumes "getUser uid s = None"
  shows "createMessage tz \<lparr>userId = uid, content = c\<rparr> sweptAt now s = (Inl UserNotFound, s)"
  using assms by (simp add: createMessage_def getUser_def)

end
